theory Spec2Isabelle
  imports Main "HOL-Library.Sublist"
begin

section \<open>Strings\<close>

text \<open>
  A Python \<^verbatim>\<open>str\<close> is a sequence of Unicode code points. The category labels of
  \<^verbatim>\<open>search_api.py\<close> start with an emoji, which is one code point above the range of
  \<^typ>\<open>char\<close>, so a string is modelled as the list of its code points.
  \<^verbatim>\<open>x in s\<close> on two strings is contiguous containment, \<^term>\<open>sublist x s\<close>.
\<close>

type_synonym ustr = "nat list"

definition lit :: "string \<Rightarrow> ustr" where
  \<comment> \<open>an ASCII string literal of the source\<close>
  "lit s = map of_char s"

definition lower_ascii :: "ustr \<Rightarrow> ustr" where
  \<comment> \<open>what \<^verbatim>\<open>str.lower\<close> computes on a string of ASCII characters\<close>
  "lower_ascii s = map (\<lambda>c. if 65 \<le> c \<and> c \<le> 90 then c + 32 else c) s"

text \<open>
  \<^verbatim>\<open>str.lower\<close> itself is a built-in of Python and follows the Unicode case tables.
  The functions below that call it take it as their first argument \<open>lower\<close>, so that
  every theorem holds for Python's own function; \<^const>\<open>lower_ascii\<close> is its restriction
  to ASCII input and is what the concrete instances use.
\<close>

definition any_in :: "ustr list \<Rightarrow> ustr \<Rightarrow> bool" where
  \<comment> \<open>\<^verbatim>\<open>any(x in s for x in xs)\<close>\<close>
  "any_in xs s = list_ex (\<lambda>x. sublist x s) xs"

definition truthy_str :: "ustr option \<Rightarrow> bool" where
  \<comment> \<open>truth value of an \<^verbatim>\<open>Optional[str]\<close>: neither \<^verbatim>\<open>None\<close> nor empty\<close>
  "truthy_str s = (case s of None \<Rightarrow> False | Some t \<Rightarrow> t \<noteq> [])"

section \<open>Category labels\<close>

definition VIDEO_GENERATION :: ustr where
  "VIDEO_GENERATION = 127916 # lit '' Video Generation''"

definition MUSIC_GENERATION :: ustr where
  "MUSIC_GENERATION = 127925 # lit '' Music Generation''"

definition MODELS_3D :: ustr where
  "MODELS_3D = 128511 # lit '' 3D Models''"

definition IMAGE_GENERATION :: ustr where
  "IMAGE_GENERATION = 127912 # lit '' Image Generation''"

definition AUDIO_PROCESSING :: ustr where
  "AUDIO_PROCESSING = 127908 # lit '' Audio Processing''"

definition EMBEDDINGS :: ustr where
  "EMBEDDINGS = 128202 # lit '' Embeddings''"

definition RERANK :: ustr where
  "RERANK = 128260 # lit '' Rerank''"

definition CHAT_COMPLETION :: ustr where
  "CHAT_COMPLETION = 128172 # lit '' Chat Completion''"

definition categories :: "ustr list" where
  \<comment> \<open>the eight labels, in the order of the glossary\<close>
  "categories = [CHAT_COMPLETION, IMAGE_GENERATION, VIDEO_GENERATION, MUSIC_GENERATION,
     MODELS_3D, AUDIO_PROCESSING, EMBEDDINGS, RERANK]"

section \<open>The classifier\<close>

definition get_model_category :: "(ustr \<Rightarrow> ustr) \<Rightarrow> ustr \<Rightarrow> ustr \<Rightarrow> ustr" where
  "get_model_category lower model_id owned_by =
     (let model_lower = lower model_id in
      if any_in [lit ''sora'', lit ''runway'', lit ''kling'', lit ''luma'', lit ''pika'',
                 lit ''video''] model_lower
      then VIDEO_GENERATION
      else if any_in [lit ''suno'', lit ''music'', lit ''udio''] model_lower
      then MUSIC_GENERATION
      else if any_in [lit ''tripo'', lit ''3d'', lit ''mesh''] model_lower
      then MODELS_3D
      else if any_in [lit ''dall-e'', lit ''dalle'', lit ''midjourney'', lit ''flux'',
                      lit ''sd'', lit ''stable'', lit ''imagen'', lit ''ideogram''] model_lower
      then IMAGE_GENERATION
      else if any_in [lit ''tts'', lit ''whisper'', lit ''speech'', lit ''audio''] model_lower
      then AUDIO_PROCESSING
      else if any_in [lit ''embedding'', lit ''embed''] model_lower
      then EMBEDDINGS
      else if sublist (lit ''rerank'') model_lower
      then RERANK
      else CHAT_COMPLETION)"

text \<open>
  The specification's reading of the classifier: an ordered table of keyword groups,
  each with its label, searched from the front; the first group with a keyword in the
  lower-cased identifier gives the category, and Chat Completion is the default.
\<close>

definition keyword_groups :: "(ustr list \<times> ustr) list" where
  "keyword_groups =
     [([lit ''sora'', lit ''runway'', lit ''kling'', lit ''luma'', lit ''pika'', lit ''video''],
       VIDEO_GENERATION),
      ([lit ''suno'', lit ''music'', lit ''udio''], MUSIC_GENERATION),
      ([lit ''tripo'', lit ''3d'', lit ''mesh''], MODELS_3D),
      ([lit ''dall-e'', lit ''dalle'', lit ''midjourney'', lit ''flux'', lit ''sd'',
        lit ''stable'', lit ''imagen'', lit ''ideogram''], IMAGE_GENERATION),
      ([lit ''tts'', lit ''whisper'', lit ''speech'', lit ''audio''], AUDIO_PROCESSING),
      ([lit ''embedding'', lit ''embed''], EMBEDDINGS),
      ([lit ''rerank''], RERANK)]"

definition group_matches :: "(ustr \<Rightarrow> ustr) \<Rightarrow> ustr \<Rightarrow> ustr list \<times> ustr \<Rightarrow> bool" where
  \<comment> \<open>the identifier contains, case-insensitively, a keyword of the group\<close>
  "group_matches lower model_id g = any_in (fst g) (lower model_id)"

fun first_match :: "(ustr list \<times> ustr) list \<Rightarrow> ustr \<Rightarrow> ustr" where
  "first_match [] s = CHAT_COMPLETION"
| "first_match (g # gs) s = (if any_in (fst g) s then snd g else first_match gs s)"

section \<open>Data model\<close>

text \<open>
  The dictionaries of the source have fixed keys, so each is a record. A key that the
  source reads with \<^verbatim>\<open>.get\<close> may be missing: its field is an option, \<open>None\<close> for the
  missing key. A price is a JSON number; the source only tests its truth value and
  formats it, so its type is the parameter \<open>'n\<close>.
\<close>

record raw_model =
  raw_id :: "ustr option"
  raw_owned_by :: "ustr option"

record 'n price_info =
  input_per_1m :: "'n option"
  output_per_1m :: "'n option"
  info_per_request :: "'n option"
  info_is_lock_price :: "bool option"

text \<open>
  A dictionary built by \<^verbatim>\<open>enrich_models\<close> has all seven keys; a price that the pricing
  entry lacks is stored as \<^verbatim>\<open>None\<close>, here \<open>None\<close>.
\<close>

record 'n enriched =
  ident :: ustr
  owned_by :: ustr
  category :: ustr
  input_price :: "'n option"
  output_price :: "'n option"
  per_request :: "'n option"
  is_lock_price :: bool

definition no_price_info :: "'n price_info" where
  \<comment> \<open>the empty dictionary \<^verbatim>\<open>{}\<close> as a pricing entry\<close>
  "no_price_info = \<lparr>input_per_1m = None, output_per_1m = None, info_per_request = None,
     info_is_lock_price = None\<rparr>"

section \<open>The enricher\<close>

definition enrich_model ::
  "(ustr \<Rightarrow> ustr) \<Rightarrow> (ustr \<rightharpoonup> 'n price_info) \<Rightarrow> raw_model \<Rightarrow> 'n enriched" where
  \<comment> \<open>the body of the loop of \<^verbatim>\<open>enrich_models\<close>\<close>
  "enrich_model lower pricing model =
     (let model_id = (case raw_id model of None \<Rightarrow> [] | Some s \<Rightarrow> s);
          owner = (case raw_owned_by model of None \<Rightarrow> [] | Some s \<Rightarrow> s);
          price_info = (case pricing model_id of None \<Rightarrow> no_price_info | Some p \<Rightarrow> p)
      in \<lparr>ident = model_id,
          owned_by = owner,
          category = get_model_category lower model_id owner,
          input_price = input_per_1m price_info,
          output_price = output_per_1m price_info,
          per_request = info_per_request price_info,
          is_lock_price = (case info_is_lock_price price_info of None \<Rightarrow> False | Some b \<Rightarrow> b)\<rparr>)"

fun enrich_loop ::
  "(ustr \<Rightarrow> ustr) \<Rightarrow> (ustr \<rightharpoonup> 'n price_info) \<Rightarrow> 'n enriched list \<Rightarrow> raw_model list
     \<Rightarrow> 'n enriched list" where
  \<comment> \<open>the \<^verbatim>\<open>for\<close> loop, with the list \<^verbatim>\<open>enriched\<close> it appends to\<close>
  "enrich_loop lower pricing enriched [] = enriched"
| "enrich_loop lower pricing enriched (model # models) =
     enrich_loop lower pricing (enriched @ [enrich_model lower pricing model]) models"

definition enrich_models ::
  "(ustr \<Rightarrow> ustr) \<Rightarrow> raw_model list \<Rightarrow> (ustr \<rightharpoonup> 'n price_info) \<Rightarrow> 'n enriched list" where
  "enrich_models lower models pricing = enrich_loop lower pricing [] models"

section \<open>The search engine\<close>

definition search_models ::
  "(ustr \<Rightarrow> ustr) \<Rightarrow> 'n enriched list \<Rightarrow> ustr option \<Rightarrow> ustr option \<Rightarrow> 'n enriched list" where
  "search_models lower models keyword cat =
     (let results = models;
          results =
            (if truthy_str cat
             then (let category_lower = lower (the cat)
                   in filter (\<lambda>m. sublist category_lower (lower (category m))) results)
             else results);
          results =
            (if truthy_str keyword
             then (let keyword_lower = lower (the keyword)
                   in filter (\<lambda>m. sublist keyword_lower (lower (ident m)) \<or>
                                   sublist keyword_lower (lower (owned_by m)) \<or>
                                   sublist keyword_lower (lower (category m))) results)
             else results)
      in results)"

section \<open>The presenter\<close>

fun digits :: "nat \<Rightarrow> ustr" where
  "digits n = (if n < 10 then [48 + n] else digits (n div 10) @ [48 + n mod 10])"

declare digits.simps [simp del]

definition str_int :: "int \<Rightarrow> ustr" where
  \<comment> \<open>\<^verbatim>\<open>str\<close> of a Python \<^verbatim>\<open>int\<close>: decimal digits, with a sign when negative\<close>
  "str_int i = (if i < 0 then 45 # digits (nat (- i)) else digits (nat i))"

definition truthy_num :: "('n \<Rightarrow> bool) \<Rightarrow> 'n option \<Rightarrow> bool" where
  \<comment> \<open>truth value of an optional number: \<^verbatim>\<open>None\<close> is false, a number has the truth
      value \<open>nonzero\<close> gives it (in Python, whether it differs from zero)\<close>
  "truthy_num nonzero v = (case v of None \<Rightarrow> False | Some n \<Rightarrow> nonzero n)"

definition format_value :: "('n \<Rightarrow> ustr) \<Rightarrow> 'n option \<Rightarrow> ustr" where
  \<comment> \<open>a value inside an f-string: \<^verbatim>\<open>None\<close> prints as \<^verbatim>\<open>None\<close>, a number as \<open>str_num\<close>
      prints it\<close>
  "format_value str_num v = (case v of None \<Rightarrow> lit ''None'' | Some n \<Rightarrow> str_num n)"

definition price_str :: "('n \<Rightarrow> bool) \<Rightarrow> ('n \<Rightarrow> ustr) \<Rightarrow> 'n enriched \<Rightarrow> ustr" where
  \<comment> \<open>the local \<^verbatim>\<open>price_str\<close> of \<^verbatim>\<open>format_model_info\<close>. The key \<^verbatim>\<open>output_price\<close> is
      present in every enriched dictionary, so \<^verbatim>\<open>model.get('output_price', 'N/A')\<close> is
      the stored value\<close>
  "price_str nonzero str_num model =
     (if is_lock_price model \<and> truthy_num nonzero (per_request model)
      then lit ''$'' @ format_value str_num (per_request model) @ lit ''/request''
      else if truthy_num nonzero (input_price model)
      then lit ''Input $'' @ format_value str_num (input_price model) @ lit ''/1M, Output $''
             @ format_value str_num (output_price model) @ lit ''/1M''
      else lit ''Pricing TBD'')"

definition format_model_info ::
  "('n \<Rightarrow> bool) \<Rightarrow> ('n \<Rightarrow> ustr) \<Rightarrow> 'n enriched \<Rightarrow> int \<Rightarrow> ustr" where
  "format_model_info nonzero str_num model index =
     (let pre = (if index > 0 then str_int index @ lit ''. '' else [])
      in pre @ lit ''**'' @ ident model @ lit ''**'' @ [10]
         @ lit ''   - Category: '' @ category model @ [10]
         @ lit ''   - Provider: '' @ owned_by model @ [10]
         @ lit ''   - Pricing: '' @ price_str nonzero str_num model @ [10]
         @ lit ''   - Docs: https://docs.lemondata.cc/api-reference'')"

definition endpoints :: "(ustr \<times> ustr) list" where
  "endpoints =
     [(CHAT_COMPLETION, lit ''/v1/chat/completions''),
      (IMAGE_GENERATION, lit ''/v1/images/generations''),
      (VIDEO_GENERATION, lit ''/v1/video/generations''),
      (MUSIC_GENERATION, lit ''/v1/music/generations''),
      (MODELS_3D, lit ''/v1/3d/generations''),
      (AUDIO_PROCESSING, lit ''/v1/audio/speech or /v1/audio/transcriptions''),
      (EMBEDDINGS, lit ''/v1/embeddings''),
      (RERANK, lit ''/v1/rerank'')]"

definition get_api_endpoint :: "ustr \<Rightarrow> ustr" where
  "get_api_endpoint cat =
     (case map_of endpoints cat of None \<Rightarrow> lit ''/v1/chat/completions'' | Some e \<Rightarrow> e)"

section \<open>The catalog client\<close>

text \<open>
  The network is the environment of the program. What \<^verbatim>\<open>requests.get\<close>,
  \<^verbatim>\<open>raise_for_status\<close> and \<^verbatim>\<open>response.json\<close> do for a URL and its headers is a
  function \<open>requests_get\<close> given to the fetch functions: it answers either with a
  \<^verbatim>\<open>RequestException\<close> and its message (no connection, timeout, a status that is not a
  success) or with the parsed body, of which the source reads the key \<^verbatim>\<open>data\<close> only
  (\<open>None\<close> when the key is missing).
\<close>

datatype 'a response = RequestException ustr | Json "'a list option"

datatype error = Exception ustr | KeyError ustr

type_synonym headers = "(ustr \<times> ustr) list"

record 'n pricing_item =
  item_model :: "ustr option"
  item_pricing :: "'n price_info option"

definition MODELS_API_URL :: ustr where
  "MODELS_API_URL = lit ''https://api.lemondata.cc/v1/models''"

definition PRICING_API_URL :: ustr where
  "PRICING_API_URL = lit ''https://api.lemondata.cc/v1/pricing''"

definition auth_headers :: "ustr option \<Rightarrow> headers" where
  \<comment> \<open>the dictionary \<^verbatim>\<open>headers\<close> both fetch functions build\<close>
  "auth_headers api_key =
     (if truthy_str api_key then [(lit ''Authorization'', lit ''Bearer '' @ the api_key)]
      else [])"

definition fetch_models ::
  "(ustr \<Rightarrow> headers \<Rightarrow> raw_model response) \<Rightarrow> ustr option \<Rightarrow> error + raw_model list" where
  "fetch_models requests_get api_key =
     (let headers = auth_headers api_key in
      case requests_get MODELS_API_URL headers of
        Json data \<Rightarrow> Inr (case data of None \<Rightarrow> [] | Some models \<Rightarrow> models)
      | RequestException e \<Rightarrow> Inl (Exception (lit ''Failed to fetch model list: '' @ e)))"

fun pricing_loop ::
  "(ustr \<rightharpoonup> 'n price_info) \<Rightarrow> 'n pricing_item list \<Rightarrow> error + (ustr \<rightharpoonup> 'n price_info)" where
  \<comment> \<open>the \<^verbatim>\<open>for\<close> loop of \<^verbatim>\<open>fetch_pricing\<close>; \<^verbatim>\<open>item["model"]\<close> raises \<^verbatim>\<open>KeyError\<close> on an
      item without that key\<close>
  "pricing_loop pricing [] = Inr pricing"
| "pricing_loop pricing (item # items) =
     (case item_model item of
        None \<Rightarrow> Inl (KeyError (lit ''model''))
      | Some k \<Rightarrow>
          pricing_loop
            (pricing(k \<mapsto> (case item_pricing item of None \<Rightarrow> no_price_info | Some p \<Rightarrow> p)))
            items)"

definition fetch_pricing ::
  "(ustr \<Rightarrow> headers \<Rightarrow> 'n pricing_item response) \<Rightarrow> ustr option
     \<Rightarrow> error + (ustr \<rightharpoonup> 'n price_info)" where
  "fetch_pricing requests_get api_key =
     (let headers = auth_headers api_key in
      case requests_get PRICING_API_URL headers of
        Json data \<Rightarrow> pricing_loop Map.empty (case data of None \<Rightarrow> [] | Some items \<Rightarrow> items)
      | RequestException e \<Rightarrow> Inr Map.empty)"

definition main_fetch ::
  "(ustr \<Rightarrow> headers \<Rightarrow> raw_model response) \<Rightarrow> (ustr \<Rightarrow> headers \<Rightarrow> 'n pricing_item response)
     \<Rightarrow> (ustr \<Rightarrow> ustr) \<Rightarrow> int + 'n enriched list" where
  \<comment> \<open>the \<^verbatim>\<open>try\<close> block of \<^verbatim>\<open>main\<close>: any exception ends the run with
      \<^verbatim>\<open>sys.exit(1)\<close>, here \<open>Inl 1\<close>\<close>
  "main_fetch get_models get_pricing lower =
     (case fetch_models get_models None of
        Inl e \<Rightarrow> Inl 1
      | Inr models \<Rightarrow>
          (case fetch_pricing get_pricing None of
             Inl e \<Rightarrow> Inl 1
           | Inr pricing \<Rightarrow> Inr (enrich_models lower models pricing)))"

section \<open>Properties of the classifier\<close>

lemma get_model_category_first_match:
  "get_model_category lower model_id owner = first_match keyword_groups (lower model_id)"
  by (simp add: get_model_category_def keyword_groups_def Let_def any_in_def)

lemma first_match_at:
  "i < length gs \<Longrightarrow> any_in (fst (gs ! i)) s \<Longrightarrow> \<forall>j<i. \<not> any_in (fst (gs ! j)) s
     \<Longrightarrow> first_match gs s = snd (gs ! i)"
proof (induction gs arbitrary: i)
  case Nil
  then show ?case by simp
next
  case (Cons g gs)
  show ?case
  proof (cases i)
    case 0
    with Cons.prems show ?thesis by simp
  next
    case (Suc k)
    from Cons.prems Suc have "\<not> any_in (fst ((g # gs) ! 0)) s" by blast
    then have g: "\<not> any_in (fst g) s" by simp
    have k: "k < length gs" using Cons.prems Suc by simp
    have hit: "any_in (fst (gs ! k)) s" using Cons.prems Suc by simp
    have "\<forall>j<k. \<not> any_in (fst (gs ! j)) s"
    proof (intro allI impI)
      fix j assume "j < k"
      then have "Suc j < i" using Suc by simp
      with Cons.prems have "\<not> any_in (fst ((g # gs) ! Suc j)) s" by blast
      then show "\<not> any_in (fst (gs ! j)) s" by simp
    qed
    with Cons.IH [OF k hit] have "first_match gs s = snd (gs ! k)" by simp
    with g Suc show ?thesis by simp
  qed
qed

lemma first_match_none:
  "\<forall>j<length gs. \<not> any_in (fst (gs ! j)) s \<Longrightarrow> first_match gs s = CHAT_COMPLETION"
proof (induction gs)
  case Nil
  then show ?case by simp
next
  case (Cons g gs)
  from Cons.prems have "\<not> any_in (fst ((g # gs) ! 0)) s" by blast
  then have g: "\<not> any_in (fst g) s" by simp
  have "\<forall>j<length gs. \<not> any_in (fst (gs ! j)) s"
  proof (intro allI impI)
    fix j assume "j < length gs"
    then have "Suc j < length (g # gs)" by simp
    with Cons.prems have "\<not> any_in (fst ((g # gs) ! Suc j)) s" by blast
    then show "\<not> any_in (fst (gs ! j)) s" by simp
  qed
  with Cons.IH g show ?case by simp
qed

lemma length_keyword_groups: "length keyword_groups = 7"
  by (simp add: keyword_groups_def)

lemma all_less_7: "(\<forall>k<7::nat. P k) = (P 0 \<and> P 1 \<and> P 2 \<and> P 3 \<and> P 4 \<and> P 5 \<and> P 6)"
proof -
  have "\<And>k::nat. k < 7 \<longleftrightarrow> k = 0 \<or> k = 1 \<or> k = 2 \<or> k = 3 \<or> k = 4 \<or> k = 5 \<or> k = 6"
    by arith
  then show ?thesis by auto
qed

text \<open>
  Claim C10. The category depends on the model identifier only: whatever the two values
  of the argument \<open>owned_by\<close>, \<^const>\<open>get_model_category\<close> returns the same category.
\<close>

theorem get_model_category_ignores_owned_by:
  "get_model_category lower model_id owner1 = get_model_category lower model_id owner2"
  by (simp add: get_model_category_def)

text \<open>
  Claim C2. When the identifier contains keywords of two groups (or more), the category
  is that of the group that comes first in the order Video Generation, Music Generation,
  3D Models, Image Generation, Audio Processing, Embeddings, Rerank: with \<open>i\<close> the first
  group that matches and \<open>j\<close> a later one that matches too, the result is the label of
  group \<open>i\<close>. An identifier that contains both \<open>video\<close> and \<open>rerank\<close> is Video Generation.
\<close>

theorem classify_priority:
  "(i < j \<and> j < length keyword_groups
      \<and> group_matches lower model_id (keyword_groups ! i)
      \<and> group_matches lower model_id (keyword_groups ! j)
      \<and> (\<forall>k<i. \<not> group_matches lower model_id (keyword_groups ! k))
     \<longrightarrow> get_model_category lower model_id owner = snd (keyword_groups ! i))
   \<and> (sublist (lit ''video'') (lower model_id) \<and> sublist (lit ''rerank'') (lower model_id)
     \<longrightarrow> get_model_category lower model_id owner = VIDEO_GENERATION)
   \<and> map snd keyword_groups =
       [VIDEO_GENERATION, MUSIC_GENERATION, MODELS_3D, IMAGE_GENERATION, AUDIO_PROCESSING,
        EMBEDDINGS, RERANK]"
proof (intro conjI impI)
  assume h: "i < j \<and> j < length keyword_groups
      \<and> group_matches lower model_id (keyword_groups ! i)
      \<and> group_matches lower model_id (keyword_groups ! j)
      \<and> (\<forall>k<i. \<not> group_matches lower model_id (keyword_groups ! k))"
  then have i: "i < length keyword_groups" by simp
  from h have hit: "any_in (fst (keyword_groups ! i)) (lower model_id)"
    by (simp add: group_matches_def)
  from h have before: "\<forall>k<i. \<not> any_in (fst (keyword_groups ! k)) (lower model_id)"
    by (simp add: group_matches_def)
  show "get_model_category lower model_id owner = snd (keyword_groups ! i)"
    using first_match_at [OF i hit before] by (simp add: get_model_category_first_match)
next
  assume "sublist (lit ''video'') (lower model_id) \<and> sublist (lit ''rerank'') (lower model_id)"
  then show "get_model_category lower model_id owner = VIDEO_GENERATION"
    by (simp add: get_model_category_def any_in_def)
next
  show "map snd keyword_groups =
       [VIDEO_GENERATION, MUSIC_GENERATION, MODELS_3D, IMAGE_GENERATION, AUDIO_PROCESSING,
        EMBEDDINGS, RERANK]"
    by (simp add: keyword_groups_def)
qed

theorem classify_priority_witness:
  "(1::nat) < 6 \<and> 6 < length keyword_groups
     \<and> group_matches lower_ascii (lit ''Suno-Rerank-1'') (keyword_groups ! 1)
     \<and> group_matches lower_ascii (lit ''Suno-Rerank-1'') (keyword_groups ! 6)
     \<and> \<not> group_matches lower_ascii (lit ''Suno-Rerank-1'') (keyword_groups ! 0)
     \<and> get_model_category lower_ascii (lit ''Suno-Rerank-1'') (lit ''acme'') = MUSIC_GENERATION
     \<and> sublist (lit ''video'') (lower_ascii (lit ''Video-Rerank-1''))
     \<and> sublist (lit ''rerank'') (lower_ascii (lit ''Video-Rerank-1''))
     \<and> get_model_category lower_ascii (lit ''Video-Rerank-1'') (lit ''acme'') = VIDEO_GENERATION"
  using classify_priority [of 1 6 lower_ascii "lit ''Suno-Rerank-1''" "lit ''acme''"]
    classify_priority [of 0 6 lower_ascii "lit ''Video-Rerank-1''" "lit ''acme''"]
  by (simp add: keyword_groups_def group_matches_def any_in_def lower_ascii_def lit_def
      sublist_code)

text \<open>
  Claim C3. An identifier that contains, case-insensitively and as a substring, a
  keyword of exactly one group gets that group's category; an identifier that contains
  no keyword of any group gets Chat Completion. (The eighth group, Chat Completion, has
  no keyword: it is the default of the table.)
\<close>

theorem classify_single_group:
  "(i < length keyword_groups
      \<and> group_matches lower model_id (keyword_groups ! i)
      \<and> (\<forall>j<length keyword_groups. j \<noteq> i \<longrightarrow> \<not> group_matches lower model_id (keyword_groups ! j))
     \<longrightarrow> get_model_category lower model_id owner = snd (keyword_groups ! i))
   \<and> ((\<forall>j<length keyword_groups. \<not> group_matches lower model_id (keyword_groups ! j))
     \<longrightarrow> get_model_category lower model_id owner = CHAT_COMPLETION)"
proof (intro conjI impI)
  assume h: "i < length keyword_groups
      \<and> group_matches lower model_id (keyword_groups ! i)
      \<and> (\<forall>j<length keyword_groups. j \<noteq> i \<longrightarrow> \<not> group_matches lower model_id (keyword_groups ! j))"
  then have i: "i < length keyword_groups" by simp
  from h have hit: "any_in (fst (keyword_groups ! i)) (lower model_id)"
    by (simp add: group_matches_def)
  have before: "\<forall>k<i. \<not> any_in (fst (keyword_groups ! k)) (lower model_id)"
  proof (intro allI impI)
    fix k assume "k < i"
    with i have "k < length keyword_groups" and "k \<noteq> i" by simp_all
    with h show "\<not> any_in (fst (keyword_groups ! k)) (lower model_id)"
      by (simp add: group_matches_def)
  qed
  show "get_model_category lower model_id owner = snd (keyword_groups ! i)"
    using first_match_at [OF i hit before] by (simp add: get_model_category_first_match)
next
  assume "\<forall>j<length keyword_groups. \<not> group_matches lower model_id (keyword_groups ! j)"
  then have "\<forall>j<length keyword_groups. \<not> any_in (fst (keyword_groups ! j)) (lower model_id)"
    by (simp add: group_matches_def)
  then show "get_model_category lower model_id owner = CHAT_COMPLETION"
    using first_match_none by (simp add: get_model_category_first_match)
qed

theorem classify_single_group_witness:
  "(3::nat) < length keyword_groups
     \<and> group_matches lower_ascii (lit ''FLUX-pro'') (keyword_groups ! 3)
     \<and> \<not> group_matches lower_ascii (lit ''FLUX-pro'') (keyword_groups ! 0)
     \<and> \<not> group_matches lower_ascii (lit ''FLUX-pro'') (keyword_groups ! 1)
     \<and> \<not> group_matches lower_ascii (lit ''FLUX-pro'') (keyword_groups ! 2)
     \<and> \<not> group_matches lower_ascii (lit ''FLUX-pro'') (keyword_groups ! 4)
     \<and> \<not> group_matches lower_ascii (lit ''FLUX-pro'') (keyword_groups ! 5)
     \<and> \<not> group_matches lower_ascii (lit ''FLUX-pro'') (keyword_groups ! 6)
     \<and> get_model_category lower_ascii (lit ''FLUX-pro'') (lit ''bfl'') = IMAGE_GENERATION
     \<and> \<not> group_matches lower_ascii (lit ''gpt-4o'') (keyword_groups ! 0)
     \<and> \<not> group_matches lower_ascii (lit ''gpt-4o'') (keyword_groups ! 1)
     \<and> \<not> group_matches lower_ascii (lit ''gpt-4o'') (keyword_groups ! 2)
     \<and> \<not> group_matches lower_ascii (lit ''gpt-4o'') (keyword_groups ! 3)
     \<and> \<not> group_matches lower_ascii (lit ''gpt-4o'') (keyword_groups ! 4)
     \<and> \<not> group_matches lower_ascii (lit ''gpt-4o'') (keyword_groups ! 5)
     \<and> \<not> group_matches lower_ascii (lit ''gpt-4o'') (keyword_groups ! 6)
     \<and> get_model_category lower_ascii (lit ''gpt-4o'') (lit ''openai'') = CHAT_COMPLETION"
proof -
  have groups:
    "\<not> group_matches lower_ascii (lit ''FLUX-pro'') (keyword_groups ! 0)"
    "\<not> group_matches lower_ascii (lit ''FLUX-pro'') (keyword_groups ! 1)"
    "\<not> group_matches lower_ascii (lit ''FLUX-pro'') (keyword_groups ! 2)"
    "group_matches lower_ascii (lit ''FLUX-pro'') (keyword_groups ! 3)"
    "\<not> group_matches lower_ascii (lit ''FLUX-pro'') (keyword_groups ! 4)"
    "\<not> group_matches lower_ascii (lit ''FLUX-pro'') (keyword_groups ! 5)"
    "\<not> group_matches lower_ascii (lit ''FLUX-pro'') (keyword_groups ! 6)"
    "\<not> group_matches lower_ascii (lit ''gpt-4o'') (keyword_groups ! 0)"
    "\<not> group_matches lower_ascii (lit ''gpt-4o'') (keyword_groups ! 1)"
    "\<not> group_matches lower_ascii (lit ''gpt-4o'') (keyword_groups ! 2)"
    "\<not> group_matches lower_ascii (lit ''gpt-4o'') (keyword_groups ! 3)"
    "\<not> group_matches lower_ascii (lit ''gpt-4o'') (keyword_groups ! 4)"
    "\<not> group_matches lower_ascii (lit ''gpt-4o'') (keyword_groups ! 5)"
    "\<not> group_matches lower_ascii (lit ''gpt-4o'') (keyword_groups ! 6)"
    by (simp_all add: keyword_groups_def group_matches_def any_in_def lower_ascii_def lit_def
        sublist_code)
  have labels: "snd (keyword_groups ! 3) = IMAGE_GENERATION"
    by (simp add: keyword_groups_def)
  show ?thesis
    using classify_single_group [of 3 lower_ascii "lit ''FLUX-pro''" "lit ''bfl''"]
      classify_single_group [of 0 lower_ascii "lit ''gpt-4o''" "lit ''openai''"]
      groups labels
    by (simp add: length_keyword_groups all_less_7)
qed

section \<open>Properties of the enricher and the search engine\<close>

lemma enrich_loop_map:
  "enrich_loop lower pricing acc models = acc @ map (enrich_model lower pricing) models"
  by (induction models arbitrary: acc) simp_all

lemma enrich_models_map:
  "enrich_models lower models pricing = map (enrich_model lower pricing) models"
  by (simp add: enrich_models_def enrich_loop_map)

lemma search_models_keyword:
  "search_models lower models keyword cat =
     (if truthy_str keyword
      then filter (\<lambda>m. sublist (lower (the keyword)) (lower (ident m)) \<or>
                       sublist (lower (the keyword)) (lower (owned_by m)) \<or>
                       sublist (lower (the keyword)) (lower (category m)))
             (search_models lower models None cat)
      else search_models lower models None cat)"
  by (simp add: search_models_def truthy_str_def Let_def)

text \<open>
  Claim C4. With a category filter and no keyword, \<^const>\<open>search_models\<close> returns exactly
  the records whose category contains the given string case-insensitively, in the order
  of the input; adding a keyword never gives more records than the category filter
  alone. (The empty string lower-cases to itself, which the first premise records for the
  parameter \<open>lower\<close>.)
\<close>

theorem search_category_filter:
  assumes "lower [] = []"
  shows "search_models lower models None (Some c)
           = filter (\<lambda>m. sublist (lower c) (lower (category m))) models
         \<and> length (search_models lower models keyword (Some c))
             \<le> length (search_models lower models None (Some c))"
proof
  show "search_models lower models None (Some c)
           = filter (\<lambda>m. sublist (lower c) (lower (category m))) models"
  proof (cases "c = []")
    case True
    with assms show ?thesis by (simp add: search_models_def truthy_str_def)
  next
    case False
    then show ?thesis by (simp add: search_models_def truthy_str_def Let_def)
  qed
  show "length (search_models lower models keyword (Some c))
             \<le> length (search_models lower models None (Some c))"
    by (subst search_models_keyword) simp
qed

text \<open>
  Claim C5. Without keyword and category \<^const>\<open>search_models\<close> returns its input list
  unchanged, and an empty keyword or an empty category removes no record: it acts as the
  missing argument does.
\<close>

theorem search_no_filter:
  "search_models lower models None None = models
   \<and> search_models lower models (Some []) None = models
   \<and> search_models lower models None (Some []) = models
   \<and> search_models lower models (Some []) (Some []) = models
   \<and> search_models lower models (Some []) cat = search_models lower models None cat
   \<and> search_models lower models keyword (Some []) = search_models lower models keyword None"
  by (simp add: search_models_def truthy_str_def)

text \<open>
  Claim C6. \<^const>\<open>enrich_models\<close> returns as many records as it is given models, the
  record at position \<open>i\<close> built from the model at position \<open>i\<close>; a model whose identifier
  has no pricing entry gets no prices and no lock price. The function has no error
  result: the source reads every key with a default and raises nowhere.
\<close>

theorem enrich_models_length_order:
  "length (enrich_models lower models pricing) = length models
   \<and> (\<forall>i<length models.
        ident (enrich_models lower models pricing ! i)
          = (case raw_id (models ! i) of None \<Rightarrow> [] | Some s \<Rightarrow> s)
        \<and> owned_by (enrich_models lower models pricing ! i)
          = (case raw_owned_by (models ! i) of None \<Rightarrow> [] | Some s \<Rightarrow> s)
        \<and> enrich_models lower models pricing ! i = enrich_model lower pricing (models ! i)
        \<and> (pricing (ident (enrich_models lower models pricing ! i)) = None
            \<longrightarrow> input_price (enrich_models lower models pricing ! i) = None
              \<and> output_price (enrich_models lower models pricing ! i) = None
              \<and> per_request (enrich_models lower models pricing ! i) = None
              \<and> \<not> is_lock_price (enrich_models lower models pricing ! i)))"
  by (simp add: enrich_models_map enrich_model_def Let_def no_price_info_def)

text \<open>
  Claim C8. Every record of \<^const>\<open>enrich_models\<close> has one category, the classifier's for
  its identifier; it is one of the eight labels of \<^const>\<open>categories\<close>, and it is Chat
  Completion when no keyword group matches.
\<close>

theorem enrich_category_closed:
  "(\<forall>m \<in> set (enrich_models lower models pricing).
      category m \<in> set categories
      \<and> category m = get_model_category lower (ident m) (owned_by m)
      \<and> ((\<forall>g \<in> set keyword_groups. \<not> group_matches lower (ident m) g)
           \<longrightarrow> category m = CHAT_COMPLETION))
   \<and> length categories = 8 \<and> distinct categories"
proof (intro conjI ballI)
  fix m assume "m \<in> set (enrich_models lower models pricing)"
  then obtain r where m: "m = enrich_model lower pricing r"
    by (auto simp: enrich_models_map)
  show "category m \<in> set categories"
    by (simp add: m enrich_model_def Let_def get_model_category_def categories_def)
  show "category m = get_model_category lower (ident m) (owned_by m)"
    by (simp add: m enrich_model_def Let_def)
  show "(\<forall>g \<in> set keyword_groups. \<not> group_matches lower (ident m) g)
           \<longrightarrow> category m = CHAT_COMPLETION"
    by (simp add: m enrich_model_def Let_def get_model_category_def keyword_groups_def
        group_matches_def any_in_def)
next
  show "length categories = 8" by (simp add: categories_def)
  show "distinct categories"
    by (simp add: categories_def CHAT_COMPLETION_def IMAGE_GENERATION_def VIDEO_GENERATION_def
        MUSIC_GENERATION_def MODELS_3D_def AUDIO_PROCESSING_def EMBEDDINGS_def RERANK_def)
qed


theorem search_category_filter_witness:
  "lower_ascii [] = []
   \<and> search_models lower_ascii
        (enrich_models lower_ascii
          [\<lparr>raw_id = Some (lit ''gpt-4o''), raw_owned_by = Some (lit ''openai'')\<rparr>,
           \<lparr>raw_id = Some (lit ''flux-pro''), raw_owned_by = Some (lit ''bfl'')\<rparr>,
           \<lparr>raw_id = Some (lit ''flux-dev''), raw_owned_by = Some (lit ''bfl'')\<rparr>]
          (Map.empty :: ustr \<rightharpoonup> int price_info))
        None (Some (lit ''IMAGE''))
      = enrich_models lower_ascii
          [\<lparr>raw_id = Some (lit ''flux-pro''), raw_owned_by = Some (lit ''bfl'')\<rparr>,
           \<lparr>raw_id = Some (lit ''flux-dev''), raw_owned_by = Some (lit ''bfl'')\<rparr>]
          Map.empty
   \<and> length (search_models lower_ascii
        (enrich_models lower_ascii
          [\<lparr>raw_id = Some (lit ''gpt-4o''), raw_owned_by = Some (lit ''openai'')\<rparr>,
           \<lparr>raw_id = Some (lit ''flux-pro''), raw_owned_by = Some (lit ''bfl'')\<rparr>,
           \<lparr>raw_id = Some (lit ''flux-dev''), raw_owned_by = Some (lit ''bfl'')\<rparr>]
          (Map.empty :: ustr \<rightharpoonup> int price_info))
        (Some (lit ''Pro'')) (Some (lit ''IMAGE''))) = 1"
proof -
  have low: "lower_ascii [] = []" by (simp add: lower_ascii_def)
  show ?thesis
    using search_category_filter [where lower = lower_ascii and models =
        "enrich_models lower_ascii
          [\<lparr>raw_id = Some (lit ''gpt-4o''), raw_owned_by = Some (lit ''openai'')\<rparr>,
           \<lparr>raw_id = Some (lit ''flux-pro''), raw_owned_by = Some (lit ''bfl'')\<rparr>,
           \<lparr>raw_id = Some (lit ''flux-dev''), raw_owned_by = Some (lit ''bfl'')\<rparr>]
          (Map.empty :: ustr \<rightharpoonup> int price_info)" and c = "lit ''IMAGE''"
        and keyword = "Some (lit ''Pro'')"]
    by (simp add: low search_models_def truthy_str_def enrich_models_map enrich_model_def
        get_model_category_def any_in_def no_price_info_def IMAGE_GENERATION_def
        CHAT_COMPLETION_def lower_ascii_def lit_def sublist_code Let_def)
qed

theorem enrich_models_length_order_witness:
  "length (enrich_models lower_ascii
      [\<lparr>raw_id = Some (lit ''gpt-4o''), raw_owned_by = Some (lit ''openai'')\<rparr>,
       \<lparr>raw_id = Some (lit ''flux-pro''), raw_owned_by = None\<rparr>]
      [lit ''gpt-4o'' \<mapsto> \<lparr>input_per_1m = Some (5::int), output_per_1m = Some 15,
         info_per_request = None, info_is_lock_price = None\<rparr>]) = 2
   \<and> (1::nat) < 2
   \<and> enrich_models lower_ascii
      [\<lparr>raw_id = Some (lit ''gpt-4o''), raw_owned_by = Some (lit ''openai'')\<rparr>,
       \<lparr>raw_id = Some (lit ''flux-pro''), raw_owned_by = None\<rparr>]
      [lit ''gpt-4o'' \<mapsto> \<lparr>input_per_1m = Some (5::int), output_per_1m = Some 15,
         info_per_request = None, info_is_lock_price = None\<rparr>] ! 1
     = \<lparr>ident = lit ''flux-pro'', owned_by = [], category = IMAGE_GENERATION,
        input_price = None, output_price = None, per_request = None, is_lock_price = False\<rparr>"
  using enrich_models_length_order [of lower_ascii
      "[\<lparr>raw_id = Some (lit ''gpt-4o''), raw_owned_by = Some (lit ''openai'')\<rparr>,
       \<lparr>raw_id = Some (lit ''flux-pro''), raw_owned_by = None\<rparr>]"
      "[lit ''gpt-4o'' \<mapsto> \<lparr>input_per_1m = Some (5::int), output_per_1m = Some 15,
         info_per_request = None, info_is_lock_price = None\<rparr>]"]
  by (simp add: enrich_model_def get_model_category_def any_in_def no_price_info_def
      lower_ascii_def lit_def sublist_code Let_def)

theorem enrich_category_closed_witness:
  "\<lparr>ident = lit ''gpt-4o'', owned_by = lit ''openai'', category = CHAT_COMPLETION,
      input_price = None, output_price = None, per_request = None, is_lock_price = False\<rparr>
     \<in> set (enrich_models lower_ascii
          [\<lparr>raw_id = Some (lit ''gpt-4o''), raw_owned_by = Some (lit ''openai'')\<rparr>]
          (Map.empty :: ustr \<rightharpoonup> int price_info))
   \<and> CHAT_COMPLETION \<in> set categories
   \<and> CHAT_COMPLETION = get_model_category lower_ascii (lit ''gpt-4o'') (lit ''openai'')"
proof -
  have mem: "\<lparr>ident = lit ''gpt-4o'', owned_by = lit ''openai'', category = CHAT_COMPLETION,
      input_price = None, output_price = None, per_request = None, is_lock_price = False\<rparr>
     \<in> set (enrich_models lower_ascii
          [\<lparr>raw_id = Some (lit ''gpt-4o''), raw_owned_by = Some (lit ''openai'')\<rparr>]
          (Map.empty :: ustr \<rightharpoonup> int price_info))"
    by (simp add: enrich_models_map enrich_model_def get_model_category_def any_in_def
        no_price_info_def lower_ascii_def lit_def sublist_code Let_def)
  from enrich_category_closed [of lower_ascii
          "[\<lparr>raw_id = Some (lit ''gpt-4o''), raw_owned_by = Some (lit ''openai'')\<rparr>]"
          "Map.empty :: ustr \<rightharpoonup> int price_info"] mem
  have "category \<lparr>ident = lit ''gpt-4o'', owned_by = lit ''openai'', category = CHAT_COMPLETION,
      input_price = None :: int option, output_price = None, per_request = None,
      is_lock_price = False\<rparr> \<in> set categories
    \<and> category \<lparr>ident = lit ''gpt-4o'', owned_by = lit ''openai'', category = CHAT_COMPLETION,
      input_price = None :: int option, output_price = None, per_request = None,
      is_lock_price = False\<rparr>
     = get_model_category lower_ascii
        (ident \<lparr>ident = lit ''gpt-4o'', owned_by = lit ''openai'', category = CHAT_COMPLETION,
      input_price = None :: int option, output_price = None, per_request = None,
      is_lock_price = False\<rparr>)
        (owned_by \<lparr>ident = lit ''gpt-4o'', owned_by = lit ''openai'', category = CHAT_COMPLETION,
      input_price = None :: int option, output_price = None, per_request = None,
      is_lock_price = False\<rparr>)"
    by blast
  with mem show ?thesis by simp
qed

section \<open>Properties of the presenter\<close>

text \<open>
  Claim C9. \<^const>\<open>get_api_endpoint\<close> gives each of the eight labels its path, \<open>/v1/rerank\<close>
  for Rerank among them, and the path of Chat Completion, \<open>/v1/chat/completions\<close>, for
  every string that is not one of the eight labels.
\<close>

theorem get_api_endpoint_table:
  "get_api_endpoint CHAT_COMPLETION = lit ''/v1/chat/completions''
   \<and> get_api_endpoint IMAGE_GENERATION = lit ''/v1/images/generations''
   \<and> get_api_endpoint VIDEO_GENERATION = lit ''/v1/video/generations''
   \<and> get_api_endpoint MUSIC_GENERATION = lit ''/v1/music/generations''
   \<and> get_api_endpoint MODELS_3D = lit ''/v1/3d/generations''
   \<and> get_api_endpoint AUDIO_PROCESSING = lit ''/v1/audio/speech or /v1/audio/transcriptions''
   \<and> get_api_endpoint EMBEDDINGS = lit ''/v1/embeddings''
   \<and> get_api_endpoint RERANK = lit ''/v1/rerank''
   \<and> (cat \<notin> set categories \<longrightarrow> get_api_endpoint cat = lit ''/v1/chat/completions'')"
proof -
  have d: "distinct categories"
    by (simp add: categories_def CHAT_COMPLETION_def IMAGE_GENERATION_def VIDEO_GENERATION_def
        MUSIC_GENERATION_def MODELS_3D_def AUDIO_PROCESSING_def EMBEDDINGS_def RERANK_def)
  have other: "cat \<notin> set categories \<longrightarrow> get_api_endpoint cat = lit ''/v1/chat/completions''"
    by (simp add: get_api_endpoint_def endpoints_def categories_def)
  from d have "get_api_endpoint CHAT_COMPLETION = lit ''/v1/chat/completions''"
    "get_api_endpoint IMAGE_GENERATION = lit ''/v1/images/generations''"
    "get_api_endpoint VIDEO_GENERATION = lit ''/v1/video/generations''"
    "get_api_endpoint MUSIC_GENERATION = lit ''/v1/music/generations''"
    "get_api_endpoint MODELS_3D = lit ''/v1/3d/generations''"
    "get_api_endpoint AUDIO_PROCESSING = lit ''/v1/audio/speech or /v1/audio/transcriptions''"
    "get_api_endpoint EMBEDDINGS = lit ''/v1/embeddings''"
    "get_api_endpoint RERANK = lit ''/v1/rerank''"
    by (auto simp: get_api_endpoint_def endpoints_def categories_def)
  with other show ?thesis by blast
qed

theorem get_api_endpoint_table_witness:
  "lit ''Rerank'' \<notin> set categories
   \<and> get_api_endpoint (lit ''Rerank'') = lit ''/v1/chat/completions''
   \<and> get_api_endpoint RERANK = lit ''/v1/rerank''"
proof -
  have "lit ''Rerank'' \<notin> set categories"
    by (simp add: categories_def CHAT_COMPLETION_def IMAGE_GENERATION_def VIDEO_GENERATION_def
        MUSIC_GENERATION_def MODELS_3D_def AUDIO_PROCESSING_def EMBEDDINGS_def RERANK_def
        lit_def)
  with get_api_endpoint_table [of "lit ''Rerank''"] show ?thesis by blast
qed

section \<open>Properties of the catalog client\<close>

text \<open>
  Claim C7. When the request for the models ends in a \<^verbatim>\<open>RequestException\<close> (no
  connection, or a status that is not a success), \<^const>\<open>fetch_models\<close> fails with an
  exception that carries it and the run ends with exit code 1. When the request for the
  pricing ends so, \<^const>\<open>fetch_pricing\<close> returns the empty mapping and the run goes on to
  enrich the models without prices.
\<close>

theorem fetch_failure_asymmetry:
  "(get_models MODELS_API_URL (auth_headers api_key) = RequestException e
      \<longrightarrow> fetch_models get_models api_key
            = Inl (Exception (lit ''Failed to fetch model list: '' @ e)))
   \<and> (get_models MODELS_API_URL [] = RequestException e
      \<longrightarrow> main_fetch get_models get_pricing lower = Inl 1)
   \<and> (get_pricing PRICING_API_URL (auth_headers api_key) = RequestException e'
      \<longrightarrow> fetch_pricing get_pricing api_key = Inr Map.empty)
   \<and> (get_pricing PRICING_API_URL [] = RequestException e'
        \<and> fetch_models get_models None = Inr models
      \<longrightarrow> main_fetch get_models get_pricing lower = Inr (enrich_models lower models Map.empty))"
  by (simp add: fetch_models_def fetch_pricing_def main_fetch_def auth_headers_def
      truthy_str_def)

theorem fetch_failure_asymmetry_witness:
  "fetch_models (\<lambda>url headers. RequestException (lit ''timed out'')) (Some (lit ''key''))
     = Inl (Exception (lit ''Failed to fetch model list: timed out''))
   \<and> main_fetch (\<lambda>url headers. RequestException (lit ''timed out''))
        (\<lambda>url headers. Json (Some ([] :: int pricing_item list))) lower_ascii = Inl 1
   \<and> fetch_pricing (\<lambda>url headers. RequestException (lit ''404'') :: int pricing_item response)
        (Some (lit ''key'')) = Inr Map.empty
   \<and> fetch_models
        (\<lambda>url headers. Json (Some [\<lparr>raw_id = Some (lit ''gpt-4o''), raw_owned_by = None\<rparr>])) None
       = Inr [\<lparr>raw_id = Some (lit ''gpt-4o''), raw_owned_by = None\<rparr>]
   \<and> main_fetch
        (\<lambda>url headers. Json (Some [\<lparr>raw_id = Some (lit ''gpt-4o''), raw_owned_by = None\<rparr>]))
        (\<lambda>url headers. RequestException (lit ''404'') :: int pricing_item response) lower_ascii
       = Inr [\<lparr>ident = lit ''gpt-4o'', owned_by = [], category = CHAT_COMPLETION,
               input_price = None, output_price = None, per_request = None,
               is_lock_price = False\<rparr>]"
proof -
  have m: "fetch_models
        (\<lambda>url headers. Json (Some [\<lparr>raw_id = Some (lit ''gpt-4o''), raw_owned_by = None\<rparr>])) None
       = Inr [\<lparr>raw_id = Some (lit ''gpt-4o''), raw_owned_by = None\<rparr>]"
    by (simp add: fetch_models_def)
  have e: "enrich_models lower_ascii [\<lparr>raw_id = Some (lit ''gpt-4o''), raw_owned_by = None\<rparr>]
        (Map.empty :: ustr \<rightharpoonup> int price_info)
      = [\<lparr>ident = lit ''gpt-4o'', owned_by = [], category = CHAT_COMPLETION,
               input_price = None, output_price = None, per_request = None,
               is_lock_price = False\<rparr>]"
    by (simp add: enrich_models_map enrich_model_def get_model_category_def any_in_def
        no_price_info_def lower_ascii_def lit_def sublist_code Let_def)
  have l: "lit ''Failed to fetch model list: '' @ lit ''timed out''
      = lit ''Failed to fetch model list: timed out''"
    by (simp add: lit_def)
  show ?thesis
    using fetch_failure_asymmetry [where
        get_models = "\<lambda>url headers. RequestException (lit ''timed out'')"
        and api_key = "Some (lit ''key'')" and e = "lit ''timed out''"
        and get_pricing = "\<lambda>url headers. RequestException (lit ''404'') :: int pricing_item response"
        and e' = "lit ''404''" and lower = lower_ascii and models = "[]"]
      fetch_failure_asymmetry [where
        get_models = "\<lambda>url headers. RequestException (lit ''timed out'')"
        and api_key = None and e = "lit ''timed out''"
        and get_pricing = "\<lambda>url headers. Json (Some ([] :: int pricing_item list))"
        and e' = "[]" and lower = lower_ascii and models = "[]"]
      fetch_failure_asymmetry [where
        get_models =
          "\<lambda>url headers. Json (Some [\<lparr>raw_id = Some (lit ''gpt-4o''), raw_owned_by = None\<rparr>])"
        and api_key = None and e = "[]"
        and get_pricing = "\<lambda>url headers. RequestException (lit ''404'') :: int pricing_item response"
        and e' = "lit ''404''" and lower = lower_ascii
        and models = "[\<lparr>raw_id = Some (lit ''gpt-4o''), raw_owned_by = None\<rparr>]"]
      m e l
    by simp
qed

section \<open>The price line of a model without output price\<close>

text \<open>
  Claim C1 says that the price line shows \<open>N/A\<close> for a missing output price and that a
  lock price with \<open>per_request\<close> present gives the line per request. On the enriched
  record of a model whose pricing entry has \<open>input_per_1m = 1\<close> and no
  \<open>output_per_1m\<close>, \<^const>\<open>format_model_info\<close> prints \<open>Output $None/1M\<close>: the record holds
  the key \<open>output_price\<close> with the value \<^verbatim>\<open>None\<close>, so the default \<open>N/A\<close> of the lookup is
  never taken. A lock price with \<open>per_request = 0\<close> gives \<open>Pricing TBD\<close>, since the test
  is on the truth value of the number.
\<close>

theorem price_str_output_absent:
  "enrich_models lower_ascii
      [\<lparr>raw_id = Some (lit ''gpt-4o''), raw_owned_by = Some (lit ''openai'')\<rparr>]
      [lit ''gpt-4o'' \<mapsto> \<lparr>input_per_1m = Some (1::int), output_per_1m = None,
         info_per_request = None, info_is_lock_price = None\<rparr>]
     = [\<lparr>ident = lit ''gpt-4o'', owned_by = lit ''openai'', category = CHAT_COMPLETION,
          input_price = Some 1, output_price = None, per_request = None,
          is_lock_price = False\<rparr>]
   \<and> price_str (\<lambda>n. n \<noteq> 0) str_int
       \<lparr>ident = lit ''gpt-4o'', owned_by = lit ''openai'', category = CHAT_COMPLETION,
          input_price = Some 1, output_price = None, per_request = None,
          is_lock_price = False\<rparr>
     = lit ''Input $1/1M, Output $None/1M''
   \<and> format_model_info (\<lambda>n. n \<noteq> 0) str_int
       \<lparr>ident = lit ''gpt-4o'', owned_by = lit ''openai'', category = CHAT_COMPLETION,
          input_price = Some 1, output_price = None, per_request = None,
          is_lock_price = False\<rparr> 1
     = lit ''1. **gpt-4o**'' @ [10] @ lit ''   - Category: '' @ CHAT_COMPLETION @ [10]
       @ lit ''   - Provider: openai'' @ [10]
       @ lit ''   - Pricing: Input $1/1M, Output $None/1M'' @ [10]
       @ lit ''   - Docs: https://docs.lemondata.cc/api-reference''
   \<and> price_str (\<lambda>n. n \<noteq> 0) str_int
       \<lparr>ident = lit ''flat'', owned_by = lit ''acme'', category = CHAT_COMPLETION,
          input_price = None, output_price = None, per_request = Some 0,
          is_lock_price = True\<rparr>
     = lit ''Pricing TBD''"
  by (simp add: enrich_models_map enrich_model_def get_model_category_def any_in_def
      no_price_info_def lower_ascii_def lit_def sublist_code Let_def price_str_def
      format_model_info_def truthy_num_def format_value_def str_int_def digits.simps)

end
